theory Spec2Isabelle
  imports Main "HOL-Library.Multiset"
begin

section \<open>Data model of \<^verbatim>\<open>src/backend/server.py\<close>\<close>

text \<open>
  The pydantic models of the server. A \<^verbatim>\<open>datetime\<close> is an integer count of
  microseconds since the epoch, the resolution of Python's clock; identifiers and text
  are strings. Field names carry a
  prefix because record fields are global constants (\<^verbatim>\<open>Room.id\<close> is \<open>room_id\<close>,
  \<^verbatim>\<open>Message.room_id\<close> is \<open>msg_room_id\<close>, and so on). A stored document is a value
  of its model: a message document always has its \<^verbatim>\<open>reactions\<close> list, which is what
  \<^verbatim>\<open>message.get("reactions", [])\<close> reads.
\<close>

type_synonym datetime = int

record User =
  usr_id :: string
  usr_username :: string
  usr_avatar_url :: "string option"
  usr_is_online :: bool

record Room =
  room_id :: string
  room_name :: string
  room_description :: "string option"
  room_participants :: "string list"
  room_created_at :: datetime
  room_last_activity :: datetime
  room_unread_count :: int

record Reaction =
  emoji :: string
  user_id :: string
  username :: string

record Message =
  msg_id :: string
  msg_room_id :: string
  msg_sender_id :: string
  msg_sender_name :: string
  msg_content :: string
  msg_timestamp :: datetime
  msg_reactions :: "Reaction list"
  msg_is_system :: bool

record MessageCreate =
  mc_room_id :: string
  mc_content :: string

record ReactionCreate =
  rc_message_id :: string
  rc_emoji :: string

text \<open>
  The database \<^verbatim>\<open>db\<close>: three collections, each a list of documents in storage
  (insertion) order. The store enforces no uniqueness on the \<^verbatim>\<open>id\<close> field, so a
  collection is a list and not a map.
\<close>

record DB =
  users :: "User list"
  rooms :: "Room list"
  messages :: "Message list"

datatype error =
    HTTPException nat string
  | ValueError string
  | OverflowError string

datatype ack = Success

section \<open>The collection operations the routes call\<close>

text \<open>
  \<^verbatim>\<open>find_one(filter)\<close> is the first matching document, \<^verbatim>\<open>find(filter)\<close> all
  matching documents in storage order, \<^verbatim>\<open>insert_one\<close> and \<^verbatim>\<open>insert_many\<close> append,
  \<^verbatim>\<open>update_one(filter, {"$set": ...})\<close> patches the first matching document and does
  nothing when there is none, \<^verbatim>\<open>count_documents({})\<close> is the size. They are the
  database driver's, not the repository's: each is written after the driver's
  documented behaviour, on a collection read in insertion order.
\<close>

text \<open>
  The store keeps a datetime in whole milliseconds: writing one rounds it down
  (\<open>div\<close> on \<open>int\<close> rounds towards minus infinity, as the encoding does).
  \<open>store_room\<close> and \<open>store_message\<close> are a room and a message as the store holds
  them after a write; the object the route still has in hand keeps its microseconds.
\<close>

definition bson_datetime :: "datetime \<Rightarrow> datetime" where
  "bson_datetime t = (t div 1000) * 1000"

definition store_room :: "Room \<Rightarrow> Room" where
  "store_room r =
     r\<lparr>room_created_at := bson_datetime (room_created_at r),
       room_last_activity := bson_datetime (room_last_activity r)\<rparr>"

definition store_message :: "Message \<Rightarrow> Message" where
  "store_message m = m\<lparr>msg_timestamp := bson_datetime (msg_timestamp m)\<rparr>"

definition find_one :: "('a \<Rightarrow> bool) \<Rightarrow> 'a list \<Rightarrow> 'a option" where
  "find_one p docs = List.find p docs"

definition find_docs :: "('a \<Rightarrow> bool) \<Rightarrow> 'a list \<Rightarrow> 'a list" where
  "find_docs p docs = filter p docs"

definition insert_one :: "'a \<Rightarrow> 'a list \<Rightarrow> 'a list" where
  "insert_one d docs = docs @ [d]"

definition insert_many :: "'a list \<Rightarrow> 'a list \<Rightarrow> 'a list" where
  "insert_many ds docs = docs @ ds"

fun update_one :: "('a \<Rightarrow> bool) \<Rightarrow> ('a \<Rightarrow> 'a) \<Rightarrow> 'a list \<Rightarrow> 'a list" where
  "update_one p f [] = []"
| "update_one p f (d # docs) = (if p d then f d # docs else d # update_one p f docs)"

definition count_documents :: "'a list \<Rightarrow> nat" where
  "count_documents docs = length docs"

text \<open>
  A cursor is what running its query gives: the documents, or the error of sending the
  query. \<^verbatim>\<open>limit(n)\<close> keeps the first \<open>|n|\<close> documents and \<open>0\<close> means no limit; the
  limit travels to the store as an 8-byte integer, so a query whose limit has an absolute
  value of \<open>2^63\<close> or more cannot be sent. \<^verbatim>\<open>to_list(n)\<close> refuses a negative length
  before it runs the query, and otherwise reads at most \<open>n\<close> documents.
\<close>

definition cursor_limit :: "int \<Rightarrow> 'a list \<Rightarrow> error + 'a list" where
  "cursor_limit n docs =
     (if 2 ^ 63 \<le> \<bar>n\<bar> then Inl (OverflowError ''MongoDB can only handle up to 8-byte ints'')
      else if n = 0 then Inr docs
      else Inr (take (nat \<bar>n\<bar>) docs))"

definition to_list :: "int \<Rightarrow> error + 'a list \<Rightarrow> error + 'a list" where
  "to_list n cursor =
     (if n < 0 then Inl (ValueError ''length must be non-negative'')
      else case cursor of
             Inl e \<Rightarrow> Inl e
           | Inr docs \<Rightarrow> Inr (take (nat n) docs))"

text \<open>
  \<^verbatim>\<open>sort("timestamp", -1)\<close>: the store returns the documents in descending order of
  the timestamp and promises nothing about the order of documents with equal
  timestamps. The routes therefore take the store's sort as a parameter \<open>srt\<close>;
  \<open>sorted_desc_of\<close> is what the store promises of it on one input, and
  \<open>sort_timestamp_desc\<close> is one such sort (stable: equal timestamps keep storage order).
\<close>

definition sorted_desc_of :: "Message list \<Rightarrow> Message list \<Rightarrow> bool" where
  "sorted_desc_of docs out =
     (mset out = mset docs \<and>
      sorted_wrt (\<lambda>a b. msg_timestamp b \<le> msg_timestamp a) out)"

definition sort_timestamp_desc :: "Message list \<Rightarrow> Message list" where
  "sort_timestamp_desc docs = sort_key (\<lambda>m. - msg_timestamp m) docs"

section \<open>The routes\<close>

text \<open>
  Every route takes the database and returns its response (or the error it raises)
  together with the database afterwards. What the source reads from its environment is
  an argument: the fresh \<^verbatim>\<open>uuid4()\<close> and the two readings of \<^verbatim>\<open>datetime.now\<close> in
  \<^verbatim>\<open>send_message\<close>, the first for the message's timestamp and the second for the
  room's activity. \<^verbatim>\<open>datetime.now\<close> is the wall clock: nothing orders the two
  readings.
\<close>

definition get_rooms :: "DB \<Rightarrow> (error + Room list) \<times> DB" where
  "get_rooms db = (to_list 100 (Inr (rooms db)), db)"

definition get_messages ::
  "(Message list \<Rightarrow> Message list) \<Rightarrow> DB \<Rightarrow> string \<Rightarrow> int \<Rightarrow> (error + Message list) \<times> DB" where
  "get_messages srt db rid limit =
     (case to_list limit
             (cursor_limit limit (srt (find_docs (\<lambda>m. msg_room_id m = rid) (messages db)))) of
        Inl e \<Rightarrow> (Inl e, db)
      | Inr ms \<Rightarrow> (Inr (rev ms), db))"

definition send_message ::
  "DB \<Rightarrow> MessageCreate \<Rightarrow> string \<Rightarrow> datetime \<Rightarrow> datetime \<Rightarrow> (error + Message) \<times> DB" where
  "send_message db message_data uuid now1 now2 =
     (let message_obj =
            \<lparr>msg_id = uuid,
             msg_room_id = mc_room_id message_data,
             msg_sender_id = ''current_user'',
             msg_sender_name = ''You'',
             msg_content = mc_content message_data,
             msg_timestamp = now1,
             msg_reactions = [],
             msg_is_system = False\<rparr>;
          db1 = db\<lparr>messages := insert_one (store_message message_obj) (messages db)\<rparr>;
          db2 = db1\<lparr>rooms := update_one (\<lambda>r. room_id r = mc_room_id message_data)
                                   (\<lambda>r. r\<lparr>room_last_activity := bson_datetime now2\<rparr>)
                                   (rooms db1)\<rparr>
      in (Inr message_obj, db2))"

definition add_reaction :: "DB \<Rightarrow> ReactionCreate \<Rightarrow> (error + ack) \<times> DB" where
  "add_reaction db reaction_data =
     (case find_one (\<lambda>m. msg_id m = rc_message_id reaction_data) (messages db) of
        None \<Rightarrow> (Inl (HTTPException 404 ''Message not found''), db)
      | Some message \<Rightarrow>
          (let existing_reactions =
                 filter (\<lambda>r. user_id r \<noteq> ''current_user'') (msg_reactions message);
               new_reaction =
                 \<lparr>emoji = rc_emoji reaction_data, user_id = ''current_user'', username = ''You''\<rparr>;
               existing_reactions' = existing_reactions @ [new_reaction]
           in (Inr Success,
               db\<lparr>messages := update_one (\<lambda>m. msg_id m = rc_message_id reaction_data)
                                 (\<lambda>m. m\<lparr>msg_reactions := existing_reactions'\<rparr>) (messages db)\<rparr>)))"

definition mark_room_as_read :: "DB \<Rightarrow> string \<Rightarrow> (error + ack) \<times> DB" where
  "mark_room_as_read db rid =
     (Inr Success,
      db\<lparr>rooms := update_one (\<lambda>r. room_id r = rid) (\<lambda>r. r\<lparr>room_unread_count := 0\<rparr>) (rooms db)\<rparr>)"

text \<open>
  \<^verbatim>\<open>init_mock_data\<close>, run at start-up: it seeds the three collections unless the
  room collection already holds a document. \<open>now k\<close> is the \<open>k\<close>-th reading of
  \<^verbatim>\<open>datetime.now\<close> it makes. The two emoji are written as their UTF-8 bytes.
\<close>

definition mock_users :: "User list" where
  "mock_users =
     [\<lparr>usr_id = ''user1'', usr_username = ''Alice Johnson'', usr_avatar_url = None, usr_is_online = True\<rparr>,
      \<lparr>usr_id = ''user2'', usr_username = ''Bob Smith'', usr_avatar_url = None, usr_is_online = True\<rparr>,
      \<lparr>usr_id = ''user3'', usr_username = ''Carol Davis'', usr_avatar_url = None, usr_is_online = False\<rparr>,
      \<lparr>usr_id = ''current_user'', usr_username = ''You'', usr_avatar_url = None, usr_is_online = True\<rparr>]"

definition mock_rooms :: "(nat \<Rightarrow> datetime) \<Rightarrow> Room list" where
  "mock_rooms now =
     [\<lparr>room_id = ''room1'', room_name = ''General Discussion'',
       room_description = Some ''Main team chat'',
       room_participants = [''user1'', ''user2'', ''user3'', ''current_user''],
       room_created_at = now 0, room_last_activity = now 1, room_unread_count = 3\<rparr>,
      \<lparr>room_id = ''room2'', room_name = ''Project Alpha'',
       room_description = Some ''Alpha project coordination'',
       room_participants = [''user1'', ''current_user''],
       room_created_at = now 2, room_last_activity = now 3, room_unread_count = 1\<rparr>,
      \<lparr>room_id = ''room3'', room_name = ''Random'',
       room_description = Some ''Casual conversations'',
       room_participants = [''user2'', ''user3'', ''current_user''],
       room_created_at = now 4, room_last_activity = now 5, room_unread_count = 0\<rparr>]"

definition mock_messages :: "(nat \<Rightarrow> datetime) \<Rightarrow> Message list" where
  "mock_messages now =
     [\<lparr>msg_id = ''msg1'', msg_room_id = ''room1'', msg_sender_id = ''user1'',
       msg_sender_name = ''Alice Johnson'',
       msg_content = ''Hey everyone! How's the project coming along?'',
       msg_timestamp = now 6,
       msg_reactions = [\<lparr>emoji = [CHR 0xF0, CHR 0x9F, CHR 0x91, CHR 0x8D],
                         user_id = ''user2'', username = ''Bob Smith''\<rparr>],
       msg_is_system = False\<rparr>,
      \<lparr>msg_id = ''msg2'', msg_room_id = ''room1'', msg_sender_id = ''user2'',
       msg_sender_name = ''Bob Smith'',
       msg_content = ''Making good progress! Just finished the backend API.'',
       msg_timestamp = now 7,
       msg_reactions = [\<lparr>emoji = [CHR 0xF0, CHR 0x9F, CHR 0x9A, CHR 0x80],
                         user_id = ''user1'', username = ''Alice Johnson''\<rparr>],
       msg_is_system = False\<rparr>,
      \<lparr>msg_id = ''msg3'', msg_room_id = ''room1'', msg_sender_id = ''user3'',
       msg_sender_name = ''Carol Davis'',
       msg_content = ''Awesome work team! Frontend is looking great too.'',
       msg_timestamp = now 8,
       msg_reactions = [],
       msg_is_system = False\<rparr>,
      \<lparr>msg_id = ''msg4'', msg_room_id = ''room2'', msg_sender_id = ''user1'',
       msg_sender_name = ''Alice Johnson'',
       msg_content = ''Can we schedule a review meeting for tomorrow?'',
       msg_timestamp = now 9,
       msg_reactions = [],
       msg_is_system = False\<rparr>]"

definition init_mock_data :: "(nat \<Rightarrow> datetime) \<Rightarrow> DB \<Rightarrow> DB" where
  "init_mock_data now db =
     (let room_count = count_documents (rooms db)
      in if room_count > 0 then db
         else db\<lparr>users := insert_many mock_users (users db),
                 rooms := insert_many (map store_room (mock_rooms now)) (rooms db),
                 messages := insert_many (map store_message (mock_messages now)) (messages db)\<rparr>)"

section \<open>Runs of the server\<close>

text \<open>
  A request (or a start-up) with everything it reads from outside, and the database it
  leaves behind. The reachable databases are those a run of start-ups and requests
  produces from the empty database.
\<close>

datatype op =
    Startup "nat \<Rightarrow> datetime"
  | ListRooms
  | ListMessages "Message list \<Rightarrow> Message list" string int
  | Send MessageCreate string datetime datetime
  | React ReactionCreate
  | MarkRead string

fun exec :: "op \<Rightarrow> DB \<Rightarrow> DB" where
  "exec (Startup now) db = init_mock_data now db"
| "exec ListRooms db = snd (get_rooms db)"
| "exec (ListMessages srt rid limit) db = snd (get_messages srt db rid limit)"
| "exec (Send message_data uuid now1 now2) db = snd (send_message db message_data uuid now1 now2)"
| "exec (React reaction_data) db = snd (add_reaction db reaction_data)"
| "exec (MarkRead rid) db = snd (mark_room_as_read db rid)"

definition empty_db :: DB where
  "empty_db = \<lparr>users = [], rooms = [], messages = []\<rparr>"

inductive reachable :: "DB \<Rightarrow> bool" where
  reachable_empty: "reachable empty_db"
| reachable_exec: "reachable db \<Longrightarrow> reachable (exec opn db)"

text \<open>The reaction lists of a database hold at most one reaction per user id.\<close>

definition reactions_unique :: "DB \<Rightarrow> bool" where
  "reactions_unique db = list_all (\<lambda>m. distinct (map user_id (msg_reactions m))) (messages db)"

text \<open>The acting user reacts to message \<open>mid\<close> with each emoji of \<open>es\<close> in turn.\<close>

definition react_all :: "string \<Rightarrow> string list \<Rightarrow> DB \<Rightarrow> DB" where
  "react_all mid es db =
     fold (\<lambda>e d. snd (add_reaction d \<lparr>rc_message_id = mid, rc_emoji = e\<rparr>)) es db"

text \<open>
  Databases the examples below run on: the seeded one, its clock read one millisecond
  apart, and one of 101 rooms.
\<close>

definition seeded_db :: DB where
  "seeded_db = init_mock_data (\<lambda>k. 1000 * int k) empty_db"

definition numbered_room :: "nat \<Rightarrow> Room" where
  "numbered_room n =
     \<lparr>room_id = replicate n (CHR ''r''), room_name = ''room'', room_description = None,
      room_participants = [], room_created_at = 0, room_last_activity = 0,
      room_unread_count = 0\<rparr>"

definition crowded_db :: DB where
  "crowded_db = \<lparr>users = [], rooms = map numbered_room [0..<101], messages = []\<rparr>"

section \<open>Facts about the collection operations\<close>

lemma update_one_absent: "\<forall>d \<in> set docs. \<not> p d \<Longrightarrow> update_one p f docs = docs"
  by (induction docs) auto

lemma find_one_None_iff: "find_one p docs = None \<longleftrightarrow> (\<forall>d \<in> set docs. \<not> p d)"
  unfolding find_one_def by (auto simp: find_None_iff)

lemma find_one_update_one:
  "find_one p docs = Some d \<Longrightarrow> p (f d) \<Longrightarrow> find_one p (update_one p f docs) = Some (f d)"
  unfolding find_one_def by (induction docs) (auto split: if_splits)

lemma update_one_list_update:
  "find_one p docs = Some d \<Longrightarrow>
   \<exists>i < length docs. docs ! i = d \<and> (\<forall>j < i. \<not> p (docs ! j)) \<and> update_one p f docs = docs[i := f d]"
  unfolding find_one_def
proof (induction docs)
  case Nil
  then show ?case by simp
next
  case (Cons a docs)
  show ?case
  proof (cases "p a")
    case True
    with Cons.prems have "a = d" by simp
    with True show ?thesis by (intro exI[of _ 0]) simp
  next
    case False
    with Cons.prems have "List.find p docs = Some d" by simp
    from Cons.IH[OF this] obtain i where i: "i < length docs" "docs ! i = d"
      "\<forall>j < i. \<not> p (docs ! j)" "update_one p f docs = docs[i := f d]" by blast
    have "\<forall>j < Suc i. \<not> p ((a # docs) ! j)"
      using False i(3) by (auto simp: less_Suc_eq_0_disj)
    with i False show ?thesis by (intro exI[of _ "Suc i"]) simp
  qed
qed

lemma set_update_one: "set (update_one p f docs) \<subseteq> set docs \<union> f ` {d \<in> set docs. p d}"
  by (induction docs) auto

lemma find_one_SomeD: "find_one p docs = Some d \<Longrightarrow> d \<in> set docs \<and> p d"
  unfolding find_one_def by (auto simp: find_Some_iff)

lemma sort_timestamp_desc_sorted: "sorted_desc_of docs (sort_timestamp_desc docs)"
proof -
  have "sorted (map (\<lambda>m. - msg_timestamp m) (sort_key (\<lambda>m. - msg_timestamp m) docs))"
    by (rule sorted_sort_key)
  then have "sorted_wrt (\<lambda>a b. msg_timestamp b \<le> msg_timestamp a)
               (sort_key (\<lambda>m. - msg_timestamp m) docs)"
    by (simp add: sorted_wrt_map)
  then show ?thesis
    by (simp add: sorted_desc_of_def sort_timestamp_desc_def)
qed

lemmas seeded_simps = seeded_db_def init_mock_data_def empty_db_def count_documents_def
  insert_many_def mock_messages_def mock_rooms_def mock_users_def store_room_def
  store_message_def bson_datetime_def

section \<open>Reactions\<close>

lemma add_reaction_found:
  assumes "find_one (\<lambda>m. msg_id m = rc_message_id rd) (messages db) = Some M"
  shows "add_reaction db rd =
           (Inr Success,
            db\<lparr>messages := update_one (\<lambda>m. msg_id m = rc_message_id rd)
               (\<lambda>m. m\<lparr>msg_reactions :=
                        filter (\<lambda>r. user_id r \<noteq> ''current_user'') (msg_reactions M)
                        @ [\<lparr>emoji = rc_emoji rd, user_id = ''current_user'', username = ''You''\<rparr>]\<rparr>)
               (messages db)\<rparr>)"
  using assms by (simp add: add_reaction_def Let_def)

lemma add_reaction_lookup:
  assumes "find_one (\<lambda>m. msg_id m = rc_message_id rd) (messages db) = Some M"
  shows "find_one (\<lambda>m. msg_id m = rc_message_id rd) (messages (snd (add_reaction db rd))) =
           Some (M\<lparr>msg_reactions :=
                     filter (\<lambda>r. user_id r \<noteq> ''current_user'') (msg_reactions M)
                     @ [\<lparr>emoji = rc_emoji rd, user_id = ''current_user'', username = ''You''\<rparr>]\<rparr>)"
proof -
  have "msg_id M = rc_message_id rd"
    using find_one_SomeD[OF assms] by simp
  then show ?thesis
    using assms by (simp add: add_reaction_found find_one_update_one)
qed

lemma react_all_lookup:
  assumes "find_one (\<lambda>m. msg_id m = mid) (messages db) = Some M" and "es \<noteq> []"
  shows "find_one (\<lambda>m. msg_id m = mid) (messages (react_all mid es db)) =
           Some (M\<lparr>msg_reactions :=
                     filter (\<lambda>r. user_id r \<noteq> ''current_user'') (msg_reactions M)
                     @ [\<lparr>emoji = last es, user_id = ''current_user'', username = ''You''\<rparr>]\<rparr>)"
  using assms
proof (induction es arbitrary: db M)
  case Nil
  then show ?case by simp
next
  case (Cons e es)
  let ?rd = "\<lparr>rc_message_id = mid, rc_emoji = e\<rparr>"
  let ?M1 = "M\<lparr>msg_reactions :=
                 filter (\<lambda>r. user_id r \<noteq> ''current_user'') (msg_reactions M)
                 @ [\<lparr>emoji = e, user_id = ''current_user'', username = ''You''\<rparr>]\<rparr>"
  have step: "find_one (\<lambda>m. msg_id m = mid) (messages (snd (add_reaction db ?rd))) = Some ?M1"
    using add_reaction_lookup[of ?rd db M] Cons.prems(1) by simp
  show ?case
  proof (cases "es = []")
    case True
    with step show ?thesis by (simp add: react_all_def)
  next
    case False
    from Cons.IH[OF step False] show ?thesis
      using False by (simp add: react_all_def)
  qed
qed

text \<open>
  C1. Let message id \<open>mid\<close> resolve to a stored message and let the acting user (the
  route's fixed \<^verbatim>\<open>current_user\<close>) react to it with the emojis \<open>es\<close>, one call after the
  other, \<open>es\<close> not empty. Afterwards the message's reaction list holds exactly one entry
  whose user id is the acting user's, the list's last element is that entry, and its
  emoji is the last emoji supplied.
\<close>

theorem react_sequence_last_writer_wins:
  assumes "find_one (\<lambda>m. msg_id m = mid) (messages db) = Some M" and "es \<noteq> []"
  shows "\<exists>M'. find_one (\<lambda>m. msg_id m = mid) (messages (react_all mid es db)) = Some M' \<and>
           length (filter (\<lambda>r. user_id r = ''current_user'') (msg_reactions M')) = 1 \<and>
           msg_reactions M' \<noteq> [] \<and>
           last (msg_reactions M') =
             \<lparr>emoji = last es, user_id = ''current_user'', username = ''You''\<rparr>"
proof -
  have "filter (\<lambda>r. user_id r = ''current_user'')
          (filter (\<lambda>r. user_id r \<noteq> ''current_user'') rs) = []" for rs :: "Reaction list"
    by (induction rs) auto
  then show ?thesis
    using react_all_lookup[OF assms] by simp
qed

theorem react_sequence_last_writer_wins_witness:
  "find_one (\<lambda>m. msg_id m = ''msg1'') (messages seeded_db) = Some (hd (messages seeded_db)) \<and>
   [''a'', ''b''] \<noteq> ([] :: string list) \<and>
   (\<exists>M'. find_one (\<lambda>m. msg_id m = ''msg1'')
             (messages (react_all ''msg1'' [''a'', ''b''] seeded_db)) = Some M' \<and>
         length (filter (\<lambda>r. user_id r = ''current_user'') (msg_reactions M')) = 1 \<and>
         msg_reactions M' \<noteq> [] \<and>
         last (msg_reactions M') = \<lparr>emoji = ''b'', user_id = ''current_user'', username = ''You''\<rparr>)"
proof -
  have h1: "find_one (\<lambda>m. msg_id m = ''msg1'') (messages seeded_db) = Some (hd (messages seeded_db))"
    by (simp add: seeded_simps find_one_def)
  have h2: "[''a'', ''b''] \<noteq> ([] :: string list)" by simp
  from react_sequence_last_writer_wins[OF h1 h2] h1 show ?thesis by simp
qed

text \<open>
  C7. When no stored message has the id of the request, \<^verbatim>\<open>add_reaction\<close> raises the
  404 \<^verbatim>\<open>HTTPException\<close> and the database afterwards is the database before: users,
  rooms and messages.
\<close>

theorem add_reaction_unknown_message:
  assumes "rc_message_id rd \<notin> set (map msg_id (messages db))"
  shows "add_reaction db rd = (Inl (HTTPException 404 ''Message not found''), db)"
proof -
  have "find_one (\<lambda>m. msg_id m = rc_message_id rd) (messages db) = None"
    using assms by (force simp: find_one_None_iff)
  then show ?thesis by (simp add: add_reaction_def)
qed

theorem add_reaction_unknown_message_witness:
  "''nope'' \<notin> set (map msg_id (messages seeded_db)) \<and>
   add_reaction seeded_db \<lparr>rc_message_id = ''nope'', rc_emoji = ''x''\<rparr> =
     (Inl (HTTPException 404 ''Message not found''), seeded_db)"
proof -
  have h: "rc_message_id \<lparr>rc_message_id = ''nope'', rc_emoji = ''x''\<rparr>
             \<notin> set (map msg_id (messages seeded_db))"
    by (simp add: seeded_simps)
  from add_reaction_unknown_message[OF h] h show ?thesis by simp
qed

text \<open>
  C10. When the id of the request resolves to the stored message \<open>M\<close>,
  \<^verbatim>\<open>add_reaction\<close> succeeds and the database afterwards differs from the one before
  in one place only: at the position of \<open>M\<close> in the message collection stands \<open>M\<close>
  with a new reaction list \<open>rs\<close>, every other field of \<open>M\<close> as it was. The reactions of
  the other users are in \<open>rs\<close> what they were in \<open>M\<close>, values and order. Every other
  message, every room and every user is unchanged.
\<close>

theorem add_reaction_frame:
  assumes "find_one (\<lambda>m. msg_id m = rc_message_id rd) (messages db) = Some M"
  shows "\<exists>i rs. i < length (messages db) \<and> messages db ! i = M \<and>
           add_reaction db rd =
             (Inr Success, db\<lparr>messages := (messages db)[i := M\<lparr>msg_reactions := rs\<rparr>]\<rparr>) \<and>
           filter (\<lambda>r. user_id r \<noteq> ''current_user'') rs =
             filter (\<lambda>r. user_id r \<noteq> ''current_user'') (msg_reactions M)"
proof -
  let ?rs = "filter (\<lambda>r. user_id r \<noteq> ''current_user'') (msg_reactions M)
               @ [\<lparr>emoji = rc_emoji rd, user_id = ''current_user'', username = ''You''\<rparr>]"
  from update_one_list_update[OF assms, of "\<lambda>m. m\<lparr>msg_reactions := ?rs\<rparr>"]
  obtain i where i: "i < length (messages db)" "messages db ! i = M"
    "update_one (\<lambda>m. msg_id m = rc_message_id rd) (\<lambda>m. m\<lparr>msg_reactions := ?rs\<rparr>) (messages db)
       = (messages db)[i := M\<lparr>msg_reactions := ?rs\<rparr>]"
    by blast
  have "add_reaction db rd =
          (Inr Success, db\<lparr>messages := (messages db)[i := M\<lparr>msg_reactions := ?rs\<rparr>]\<rparr>)"
    using add_reaction_found[OF assms] i(3) by simp
  moreover have "filter (\<lambda>r. user_id r \<noteq> ''current_user'') ?rs =
             filter (\<lambda>r. user_id r \<noteq> ''current_user'') (msg_reactions M)"
    by simp
  ultimately show ?thesis using i(1,2) by blast
qed

theorem add_reaction_frame_witness:
  "find_one (\<lambda>m. msg_id m = ''msg1'') (messages seeded_db) = Some (hd (messages seeded_db)) \<and>
   (\<exists>i rs. i < length (messages seeded_db) \<and> messages seeded_db ! i = hd (messages seeded_db) \<and>
      add_reaction seeded_db \<lparr>rc_message_id = ''msg1'', rc_emoji = ''x''\<rparr> =
        (Inr Success,
         seeded_db\<lparr>messages := (messages seeded_db)[i := (hd (messages seeded_db))\<lparr>msg_reactions := rs\<rparr>]\<rparr>) \<and>
      filter (\<lambda>r. user_id r \<noteq> ''current_user'') rs =
        filter (\<lambda>r. user_id r \<noteq> ''current_user'') (msg_reactions (hd (messages seeded_db))))"
proof -
  have h: "find_one (\<lambda>m. msg_id m = rc_message_id \<lparr>rc_message_id = ''msg1'', rc_emoji = ''x''\<rparr>)
             (messages seeded_db) = Some (hd (messages seeded_db))"
    by (simp add: seeded_simps find_one_def)
  from add_reaction_frame[OF h] h show ?thesis by simp
qed

section \<open>The invariant of the reaction lists\<close>

lemma reactions_unique_iff:
  "reactions_unique db \<longleftrightarrow> (\<forall>m \<in> set (messages db). distinct (map user_id (msg_reactions m)))"
  by (simp add: reactions_unique_def list_all_iff)

lemma distinct_replaced:
  assumes "distinct (map user_id rs)"
  shows "distinct (map user_id
           (filter (\<lambda>r. user_id r \<noteq> u) rs @ [\<lparr>emoji = e, user_id = u, username = n\<rparr>]))"
proof -
  have "distinct (map user_id (filter (\<lambda>r. user_id r \<noteq> u) rs))"
    using assms by (simp add: distinct_map_filter)
  moreover have "u \<notin> set (map user_id (filter (\<lambda>r. user_id r \<noteq> u) rs))"
    by auto
  ultimately show ?thesis by simp
qed

lemma add_reaction_unique:
  assumes "reactions_unique db"
  shows "reactions_unique (snd (add_reaction db rd))"
proof (cases "find_one (\<lambda>m. msg_id m = rc_message_id rd) (messages db)")
  case None
  with assms show ?thesis by (simp add: add_reaction_def)
next
  case (Some M)
  let ?rs = "filter (\<lambda>r. user_id r \<noteq> ''current_user'') (msg_reactions M)
               @ [\<lparr>emoji = rc_emoji rd, user_id = ''current_user'', username = ''You''\<rparr>]"
  have "M \<in> set (messages db)"
    using find_one_SomeD[OF Some] by simp
  with assms have "distinct (map user_id (msg_reactions M))"
    by (simp add: reactions_unique_iff)
  then have new: "distinct (map user_id ?rs)" by (rule distinct_replaced)
  have "distinct (map user_id (msg_reactions m))"
    if "m \<in> set (update_one (\<lambda>m. msg_id m = rc_message_id rd)
                   (\<lambda>m. m\<lparr>msg_reactions := ?rs\<rparr>) (messages db))" for m
  proof -
    from that set_update_one[of "\<lambda>m. msg_id m = rc_message_id rd"
        "\<lambda>m. m\<lparr>msg_reactions := ?rs\<rparr>" "messages db"]
    consider "m \<in> set (messages db)" | m0 where "m = m0\<lparr>msg_reactions := ?rs\<rparr>" by blast
    then show ?thesis
    proof cases
      case 1
      with assms show ?thesis by (simp add: reactions_unique_iff)
    next
      case 2
      with new show ?thesis by simp
    qed
  qed
  then show ?thesis
    by (simp add: add_reaction_found[OF Some] reactions_unique_iff)
qed

lemma send_message_unique:
  assumes "reactions_unique db"
  shows "reactions_unique (snd (send_message db md uuid now1 now2))"
  using assms
  by (simp add: send_message_def Let_def insert_one_def reactions_unique_def store_message_def)

lemma init_mock_data_unique:
  assumes "reactions_unique db"
  shows "reactions_unique (init_mock_data now db)"
  using assms
  by (simp add: init_mock_data_def Let_def insert_many_def reactions_unique_def mock_messages_def
        store_message_def)

lemma get_messages_db: "snd (get_messages srt db rid limit) = db"
  by (simp add: get_messages_def split: sum.splits)

lemma exec_unique:
  assumes "reactions_unique db"
  shows "reactions_unique (exec opn db)"
proof (cases opn)
  case (Startup now)
  with assms show ?thesis by (simp add: init_mock_data_unique)
next
  case ListRooms
  with assms show ?thesis by (simp add: get_rooms_def)
next
  case (ListMessages srt rid limit)
  with assms show ?thesis by (simp add: get_messages_db)
next
  case (Send md uuid now1 now2)
  with assms show ?thesis by (simp add: send_message_unique)
next
  case (React rd)
  with assms show ?thesis by (simp add: add_reaction_unique)
next
  case (MarkRead rid)
  with assms show ?thesis by (simp add: mark_room_as_read_def reactions_unique_def)
qed

lemma reachable_unique: "reachable db \<Longrightarrow> reactions_unique db"
proof (induction rule: reachable.induct)
  case reachable_empty
  show ?case by (simp add: empty_db_def reactions_unique_def)
next
  case (reachable_exec db opn)
  then show ?case by (simp add: exec_unique)
qed

text \<open>
  C3. In every database a run of the server reaches from the empty one, every message's
  reaction list holds at most one entry per user id, and this is still so after any
  further request: send, react, mark-read, list-messages, list-rooms (and a start-up).
\<close>

theorem reactions_unique_invariant:
  assumes "reachable db"
  shows "reactions_unique db \<and> reactions_unique (exec opn db)"
  using assms by (simp add: reachable_unique exec_unique)

theorem reactions_unique_invariant_witness:
  "reachable (exec (Startup (\<lambda>k. int k)) empty_db) \<and>
   reactions_unique (exec (Startup (\<lambda>k. int k)) empty_db) \<and>
   reactions_unique (exec (React \<lparr>rc_message_id = ''msg1'', rc_emoji = ''x''\<rparr>)
                       (exec (Startup (\<lambda>k. int k)) empty_db)) \<and>
   map user_id (msg_reactions (hd (messages
       (exec (React \<lparr>rc_message_id = ''msg1'', rc_emoji = ''x''\<rparr>)
          (exec (Startup (\<lambda>k. int k)) empty_db))))) = [''user2'', ''current_user'']"
proof -
  have r: "reachable (exec (Startup (\<lambda>k. int k)) empty_db)"
    by (rule reachable_exec[OF reachable_empty])
  have e: "map user_id (msg_reactions (hd (messages
       (exec (React \<lparr>rc_message_id = ''msg1'', rc_emoji = ''x''\<rparr>)
          (exec (Startup (\<lambda>k. int k)) empty_db))))) = [''user2'', ''current_user'']"
    by (simp add: add_reaction_def find_one_def Let_def init_mock_data_def empty_db_def
          count_documents_def insert_many_def mock_messages_def store_message_def)
  from reactions_unique_invariant[OF r, of "React \<lparr>rc_message_id = ''msg1'', rc_emoji = ''x''\<rparr>"] r e
  show ?thesis by blast
qed

section \<open>Listing messages\<close>

lemma get_messages_in_range:
  assumes "0 < limit" and "limit < 2 ^ 63"
  shows "get_messages srt db rid limit =
           (Inr (rev (take (nat limit) (srt (find_docs (\<lambda>m. msg_room_id m = rid) (messages db))))), db)"
  using assms by (simp add: get_messages_def to_list_def cursor_limit_def)

lemma get_messages_overflow:
  assumes "2 ^ 63 \<le> limit"
  shows "get_messages srt db rid limit =
           (Inl (OverflowError ''MongoDB can only handle up to 8-byte ints''), db)"
proof -
  have "0 < (2::int) ^ 63" by simp
  with assms have "\<not> limit < 0" and "2 ^ 63 \<le> \<bar>limit\<bar>" by linarith+
  then show ?thesis
    by (simp add: get_messages_def to_list_def cursor_limit_def)
qed

text \<open>
  C2, as the code has it. For a positive \<open>limit\<close> below \<open>2^63\<close> (the limit must fit the
  store's 8-byte integers), and whatever order the store's descending sort gives to
  equal timestamps, \<^verbatim>\<open>get_messages\<close> returns a list \<open>res\<close> of the room's stored
  messages that has at most \<open>limit\<close> elements (exactly \<open>limit\<close>, or all of the room's
  when there are fewer), is in non-decreasing order of timestamp, and is the most
  recent ones: every message of the room that is left out is no newer than any
  message returned. The database is unchanged.
\<close>

theorem get_messages_most_recent:
  assumes "0 < limit" and "limit < 2 ^ 63"
    and "sorted_desc_of (find_docs (\<lambda>m. msg_room_id m = rid) (messages db))
           (srt (find_docs (\<lambda>m. msg_room_id m = rid) (messages db)))"
  shows "\<exists>res. get_messages srt db rid limit = (Inr res, db) \<and>
           length res \<le> nat limit \<and>
           sorted (map msg_timestamp res) \<and>
           length res = min (nat limit) (length (find_docs (\<lambda>m. msg_room_id m = rid) (messages db))) \<and>
           mset res \<subseteq># mset (find_docs (\<lambda>m. msg_room_id m = rid) (messages db)) \<and>
           (\<forall>old \<in># mset (find_docs (\<lambda>m. msg_room_id m = rid) (messages db)) - mset res.
              \<forall>m \<in> set res. msg_timestamp old \<le> msg_timestamp m)"
proof -
  let ?room = "find_docs (\<lambda>m. msg_room_id m = rid) (messages db)"
  let ?S = "srt ?room"
  let ?k = "nat limit"
  let ?res = "rev (take ?k ?S)"
  from assms(3) have ms: "mset ?S = mset ?room"
    and desc: "sorted_wrt (\<lambda>a b. msg_timestamp b \<le> msg_timestamp a) ?S"
    by (simp_all add: sorted_desc_of_def)
  have split: "?S = take ?k ?S @ drop ?k ?S" by simp
  have r: "get_messages srt db rid limit = (Inr ?res, db)"
    using assms(1,2) by (rule get_messages_in_range)
  have l1: "length ?res \<le> ?k" by simp
  have "sorted_wrt (\<lambda>a b. msg_timestamp b \<le> msg_timestamp a) (take ?k ?S)"
    using desc by (rule sorted_wrt_take)
  then have l2: "sorted (map msg_timestamp ?res)"
    by (simp add: sorted_wrt_map sorted_wrt_rev)
  have "length ?S = length ?room"
    using ms by (rule mset_eq_length)
  then have l3: "length ?res = min ?k (length ?room)" by simp
  have "mset ?S = mset (take ?k ?S) + mset (drop ?k ?S)"
    by (metis split mset_append)
  with ms have parts: "mset ?room = mset ?res + mset (drop ?k ?S)" by simp
  then have l4: "mset ?res \<subseteq># mset ?room" by simp
  from parts have rest: "mset ?room - mset ?res = mset (drop ?k ?S)" by simp
  have "sorted_wrt (\<lambda>a b. msg_timestamp b \<le> msg_timestamp a) (take ?k ?S @ drop ?k ?S)"
    using desc by simp
  then have "\<forall>m \<in> set (take ?k ?S). \<forall>old \<in> set (drop ?k ?S). msg_timestamp old \<le> msg_timestamp m"
    unfolding sorted_wrt_append by blast
  then have l5: "\<forall>old \<in># mset ?room - mset ?res. \<forall>m \<in> set ?res. msg_timestamp old \<le> msg_timestamp m"
    unfolding rest by auto
  from r l1 l2 l3 l4 l5 show ?thesis by blast
qed

theorem get_messages_most_recent_witness:
  "(0::int) < 2 \<and> (2::int) < 2 ^ 63 \<and>
   sorted_desc_of (find_docs (\<lambda>m. msg_room_id m = ''room1'') (messages seeded_db))
     (sort_timestamp_desc (find_docs (\<lambda>m. msg_room_id m = ''room1'') (messages seeded_db))) \<and>
   (\<exists>res. get_messages sort_timestamp_desc seeded_db ''room1'' 2 = (Inr res, seeded_db) \<and>
           length res \<le> nat 2 \<and>
           sorted (map msg_timestamp res) \<and>
           length res = min (nat 2) (length (find_docs (\<lambda>m. msg_room_id m = ''room1'') (messages seeded_db))) \<and>
           mset res \<subseteq># mset (find_docs (\<lambda>m. msg_room_id m = ''room1'') (messages seeded_db)) \<and>
           (\<forall>old \<in># mset (find_docs (\<lambda>m. msg_room_id m = ''room1'') (messages seeded_db)) - mset res.
              \<forall>m \<in> set res. msg_timestamp old \<le> msg_timestamp m)) \<and>
   map msg_id (projr (fst (get_messages sort_timestamp_desc seeded_db ''room1'' 2))) = [''msg2'', ''msg3'']"
proof -
  have h1: "(0::int) < 2" by simp
  have h2: "(2::int) < 2 ^ 63" by simp
  have h3: "sorted_desc_of (find_docs (\<lambda>m. msg_room_id m = ''room1'') (messages seeded_db))
     (sort_timestamp_desc (find_docs (\<lambda>m. msg_room_id m = ''room1'') (messages seeded_db)))"
    by (rule sort_timestamp_desc_sorted)
  have h4: "map msg_id (projr (fst (get_messages sort_timestamp_desc seeded_db ''room1'' 2)))
              = [''msg2'', ''msg3'']"
    by (simp add: get_messages_in_range find_docs_def sort_timestamp_desc_def seeded_simps)
  from get_messages_most_recent[where srt = sort_timestamp_desc and db = seeded_db
        and rid = "''room1''" and limit = 2, OF h1 h2 h3] h1 h2 h3 h4
  show ?thesis by blast
qed

text \<open>
  The claim as the specification states it (every positive limit) fails at the limit
  \<open>2^63 = 9223372036854775808\<close>: the query cannot be sent, the route raises
  \<^verbatim>\<open>OverflowError\<close> and returns no messages.
\<close>

theorem get_messages_most_recent_counterexample:
  "(0::int) < 9223372036854775808 \<and>
   get_messages sort_timestamp_desc seeded_db ''room1'' 9223372036854775808 =
     (Inl (OverflowError ''MongoDB can only handle up to 8-byte ints''), seeded_db)"
proof -
  have "(2::int) ^ 63 \<le> 9223372036854775808" by simp
  then show ?thesis by (simp add: get_messages_overflow)
qed

section \<open>Sending a message\<close>

lemma bson_datetime_mono: "a \<le> b \<Longrightarrow> bson_datetime a \<le> bson_datetime b"
  unfolding bson_datetime_def by (simp add: zdiv_mono1)

lemma bson_datetime_bounds: "bson_datetime t \<le> t \<and> t < bson_datetime t + 1000"
proof -
  have "t = (t div 1000) * 1000 + t mod 1000" by simp
  moreover have "0 \<le> t mod 1000" and "t mod 1000 < 1000" by simp_all
  ultimately show ?thesis unfolding bson_datetime_def by linarith
qed

text \<open>
  C8, as the code has it. When the room id of the request resolves to the stored room
  \<open>R\<close>, the send succeeds. The message returned carries the first reading of the clock
  as its timestamp; the message stored, at the end of the collection, is that message
  with the timestamp rounded down to milliseconds. Afterwards the id resolves to \<open>R\<close>
  with \<^verbatim>\<open>last_activity\<close> set to the second reading of the clock, rounded down to
  milliseconds, and nothing else of \<open>R\<close> changed. If the second reading is not earlier than the
  first, this \<^verbatim>\<open>last_activity\<close> is at least the stored timestamp of the new message,
  and less than a millisecond below the timestamp of the message returned.
\<close>

theorem send_message_last_activity:
  assumes "find_one (\<lambda>r. room_id r = mc_room_id md) (rooms db) = Some R"
  shows "\<exists>msg stored db' R'.
           send_message db md uuid now1 now2 = (Inr msg, db') \<and>
           msg_timestamp msg = now1 \<and>
           stored = msg\<lparr>msg_timestamp := bson_datetime now1\<rparr> \<and>
           messages db' = messages db @ [stored] \<and>
           find_one (\<lambda>r. room_id r = mc_room_id md) (rooms db') = Some R' \<and>
           R' = R\<lparr>room_last_activity := bson_datetime now2\<rparr> \<and>
           (now1 \<le> now2 \<longrightarrow>
              msg_timestamp stored \<le> room_last_activity R' \<and>
              msg_timestamp msg < room_last_activity R' + 1000)"
proof -
  have "room_id R = mc_room_id md"
    using find_one_SomeD[OF assms] by simp
  then have found: "find_one (\<lambda>r. room_id r = mc_room_id md)
               (update_one (\<lambda>r. room_id r = mc_room_id md)
                  (\<lambda>r. r\<lparr>room_last_activity := bson_datetime now2\<rparr>) (rooms db))
             = Some (R\<lparr>room_last_activity := bson_datetime now2\<rparr>)"
    using assms by (simp add: find_one_update_one)
  have order: "bson_datetime now1 \<le> bson_datetime now2 \<and> now1 < bson_datetime now2 + 1000"
    if "now1 \<le> now2"
  proof -
    from that have "bson_datetime now1 \<le> bson_datetime now2" by (rule bson_datetime_mono)
    moreover have "now1 < bson_datetime now2 + 1000"
      using that bson_datetime_bounds[of now2] by linarith
    ultimately show ?thesis by simp
  qed
  show ?thesis
    using found order by (simp add: send_message_def Let_def insert_one_def store_message_def)
qed

theorem send_message_last_activity_witness:
  "find_one (\<lambda>r. room_id r = ''room1'') (rooms seeded_db) = Some (hd (rooms seeded_db)) \<and>
   (10500::int) \<le> 10900 \<and>
   (\<exists>msg stored db' R'.
       send_message seeded_db \<lparr>mc_room_id = ''room1'', mc_content = ''hi''\<rparr> ''m5'' 10500 10900
         = (Inr msg, db') \<and>
       msg_timestamp msg = 10500 \<and>
       stored = msg\<lparr>msg_timestamp := 10000\<rparr> \<and>
       messages db' = messages seeded_db @ [stored] \<and>
       find_one (\<lambda>r. room_id r = ''room1'') (rooms db') = Some R' \<and>
       R' = (hd (rooms seeded_db))\<lparr>room_last_activity := 10000\<rparr> \<and>
       msg_timestamp stored \<le> room_last_activity R' \<and>
       msg_timestamp msg < room_last_activity R' + 1000)"
proof -
  have h1: "find_one (\<lambda>r. room_id r = mc_room_id \<lparr>mc_room_id = ''room1'', mc_content = ''hi''\<rparr>)
              (rooms seeded_db) = Some (hd (rooms seeded_db))"
    by (simp add: seeded_simps find_one_def)
  have h2: "(10500::int) \<le> 10900" by simp
  have b1: "bson_datetime 10500 = 10000" and b2: "bson_datetime 10900 = 10000"
    by (simp_all add: bson_datetime_def)
  from send_message_last_activity[OF h1, of "''m5''" 10500 10900] h1 h2
  show ?thesis unfolding b1 b2 by simp
qed

text \<open>
  The claim as the specification states it fails on the seeded database. When the wall
  clock is set back one millisecond between the two readings (11000, then 10000), the
  room's \<^verbatim>\<open>last_activity\<close> ends at 10000, below the timestamp 11000 of the new
  message, returned and stored. When the two readings fall in one millisecond (10500,
  then 10900), it ends at 10000, below the timestamp 10500 of the message returned.
\<close>

theorem send_message_last_activity_counterexample:
  "find_one (\<lambda>r. room_id r = ''room1'') (rooms seeded_db) = Some (hd (rooms seeded_db)) \<and>
   \<not> isl (fst
      (send_message seeded_db \<lparr>mc_room_id = ''room1'', mc_content = ''hi''\<rparr> ''m5'' 11000 10000)) \<and>
   room_last_activity (the (find_one (\<lambda>r. room_id r = ''room1'') (rooms (snd
      (send_message seeded_db \<lparr>mc_room_id = ''room1'', mc_content = ''hi''\<rparr> ''m5'' 11000 10000)))))
     = 10000 \<and>
   msg_timestamp (projr (fst
      (send_message seeded_db \<lparr>mc_room_id = ''room1'', mc_content = ''hi''\<rparr> ''m5'' 11000 10000)))
     = 11000 \<and>
   msg_timestamp (last (messages (snd
      (send_message seeded_db \<lparr>mc_room_id = ''room1'', mc_content = ''hi''\<rparr> ''m5'' 11000 10000))))
     = 11000 \<and>
   \<not> isl (fst
      (send_message seeded_db \<lparr>mc_room_id = ''room1'', mc_content = ''hi''\<rparr> ''m5'' 10500 10900)) \<and>
   room_last_activity (the (find_one (\<lambda>r. room_id r = ''room1'') (rooms (snd
      (send_message seeded_db \<lparr>mc_room_id = ''room1'', mc_content = ''hi''\<rparr> ''m5'' 10500 10900)))))
     = 10000 \<and>
   msg_timestamp (projr (fst
      (send_message seeded_db \<lparr>mc_room_id = ''room1'', mc_content = ''hi''\<rparr> ''m5'' 10500 10900)))
     = 10500"
  by (simp add: send_message_def Let_def insert_one_def find_one_def seeded_simps)

text \<open>
  C4, as the code has it. \<^verbatim>\<open>send_message\<close> does not look at the content: a send
  with empty content succeeds, returns the created message, and stores it (its
  timestamp in the store's milliseconds), with its empty content, at the end of the
  message collection.
\<close>

theorem send_message_empty_content:
  "\<exists>msg db'. send_message db \<lparr>mc_room_id = rid, mc_content = ''''\<rparr> uuid now1 now2 = (Inr msg, db') \<and>
     msg_content msg = '''' \<and> messages db' = messages db @ [store_message msg] \<and>
     msg_content (store_message msg) = ''''"
  by (simp add: send_message_def Let_def insert_one_def store_message_def)

text \<open>
  The claim as the specification states it (an empty content is refused and nothing is
  stored) fails on the seeded database: the send returns no error and the message
  collection has grown by the message with the empty content.
\<close>

theorem send_message_empty_content_counterexample:
  "\<not> isl (fst (send_message seeded_db \<lparr>mc_room_id = ''room1'', mc_content = ''''\<rparr> ''m5'' 10 11)) \<and>
   length (messages (snd (send_message seeded_db \<lparr>mc_room_id = ''room1'', mc_content = ''''\<rparr> ''m5'' 10 11)))
     = Suc (length (messages seeded_db)) \<and>
   msg_content (last (messages
       (snd (send_message seeded_db \<lparr>mc_room_id = ''room1'', mc_content = ''''\<rparr> ''m5'' 10 11)))) = ''''"
  by (simp add: send_message_def Let_def insert_one_def store_message_def)

text \<open>
  C5, as the code has it. \<^verbatim>\<open>send_message\<close> does not look the room up: when no stored
  room has the room id of the request (and the content is not empty), the send
  succeeds, returns the created message and stores it (its timestamp in the store's
  milliseconds); the update of the room's activity matches nothing, so rooms and users
  are unchanged.
\<close>

theorem send_message_unknown_room:
  assumes "mc_room_id md \<notin> set (map room_id (rooms db))" and "mc_content md \<noteq> []"
  shows "\<exists>msg. send_message db md uuid now1 now2 =
                 (Inr msg, db\<lparr>messages := messages db @ [store_message msg]\<rparr>) \<and>
           msg_room_id msg = mc_room_id md \<and> msg_content msg = mc_content md \<and>
           msg_room_id (store_message msg) = mc_room_id md \<and>
           msg_content (store_message msg) = mc_content md"
proof -
  have "\<forall>r \<in> set (rooms db). \<not> room_id r = mc_room_id md"
    using assms(1) by force
  then have "update_one (\<lambda>r. room_id r = mc_room_id md) f (rooms db) = rooms db" for f
    by (rule update_one_absent)
  then show ?thesis
    by (simp add: send_message_def Let_def insert_one_def store_message_def)
qed

theorem send_message_unknown_room_witness:
  "''room9'' \<notin> set (map room_id (rooms seeded_db)) \<and> ''hi'' \<noteq> [] \<and>
   (\<exists>msg. send_message seeded_db \<lparr>mc_room_id = ''room9'', mc_content = ''hi''\<rparr> ''m5'' 10 11
             = (Inr msg, seeded_db\<lparr>messages := messages seeded_db @ [store_message msg]\<rparr>) \<and>
           msg_room_id msg = ''room9'' \<and> msg_content msg = ''hi'' \<and>
           msg_room_id (store_message msg) = ''room9'' \<and>
           msg_content (store_message msg) = ''hi'')"
proof -
  have h1: "mc_room_id \<lparr>mc_room_id = ''room9'', mc_content = ''hi''\<rparr>
              \<notin> set (map room_id (rooms seeded_db))"
    by (simp add: seeded_simps)
  have h2: "mc_content \<lparr>mc_room_id = ''room9'', mc_content = ''hi''\<rparr> \<noteq> []" by simp
  from send_message_unknown_room[OF h1 h2, of "''m5''" 10 11] h1 h2 show ?thesis by simp
qed

text \<open>
  The claim as the specification states it (an unknown room is refused and nothing is
  stored) fails on the seeded database, which has no room \<^verbatim>\<open>room9\<close>: the send returns
  no error and the message collection has grown.
\<close>

theorem send_message_unknown_room_counterexample:
  "find_one (\<lambda>r. room_id r = ''room9'') (rooms seeded_db) = None \<and>
   \<not> isl (fst (send_message seeded_db \<lparr>mc_room_id = ''room9'', mc_content = ''hi''\<rparr> ''m5'' 10 11)) \<and>
   length (messages (snd (send_message seeded_db \<lparr>mc_room_id = ''room9'', mc_content = ''hi''\<rparr> ''m5'' 10 11)))
     = Suc (length (messages seeded_db))"
  by (simp add: send_message_def Let_def insert_one_def find_one_def seeded_simps)

section \<open>Rooms\<close>

text \<open>
  C6, as the code has it. \<^verbatim>\<open>mark_room_as_read\<close> does not look the room up: when no
  stored room has the id, the update matches nothing, the route reports success and
  the database is unchanged.
\<close>

theorem mark_room_as_read_unknown_room:
  assumes "rid \<notin> set (map room_id (rooms db))"
  shows "mark_room_as_read db rid = (Inr Success, db)"
proof -
  have "\<forall>r \<in> set (rooms db). \<not> room_id r = rid"
    using assms by force
  then have "update_one (\<lambda>r. room_id r = rid) f (rooms db) = rooms db" for f
    by (rule update_one_absent)
  then show ?thesis
    by (simp add: mark_room_as_read_def)
qed

theorem mark_room_as_read_unknown_room_witness:
  "''room9'' \<notin> set (map room_id (rooms seeded_db)) \<and>
   mark_room_as_read seeded_db ''room9'' = (Inr Success, seeded_db)"
proof -
  have h: "''room9'' \<notin> set (map room_id (rooms seeded_db))"
    by (simp add: seeded_simps)
  from mark_room_as_read_unknown_room[OF h] h show ?thesis by simp
qed

text \<open>
  The claim as the specification states it (an unknown room is reported as not found)
  fails on the seeded database: for \<^verbatim>\<open>room9\<close> the route reports success.
\<close>

theorem mark_room_as_read_unknown_room_counterexample:
  "find_one (\<lambda>r. room_id r = ''room9'') (rooms seeded_db) = None \<and>
   fst (mark_room_as_read seeded_db ''room9'') = Inr Success"
  by (simp add: mark_room_as_read_def find_one_def seeded_simps)

lemma numbered_room_inj: "numbered_room m = numbered_room n \<Longrightarrow> m = n"
proof -
  assume "numbered_room m = numbered_room n"
  then have "replicate m (CHR ''r'') = replicate n (CHR ''r'')"
    by (simp add: numbered_room_def)
  then have "length (replicate m (CHR ''r'')) = length (replicate n (CHR ''r''))"
    by (rule arg_cong)
  then show "m = n" by simp
qed

text \<open>
  C9, as the code has it. \<^verbatim>\<open>get_rooms\<close> reads the cursor with \<^verbatim>\<open>to_list(100)\<close>: it
  returns the first hundred rooms in storage order and leaves the database unchanged;
  when the store holds at most a hundred rooms, these are all the rooms.
\<close>

theorem get_rooms_first_hundred:
  "get_rooms db = (Inr (take 100 (rooms db)), db) \<and>
   (length (rooms db) \<le> 100 \<longrightarrow> get_rooms db = (Inr (rooms db), db))"
  by (simp add: get_rooms_def to_list_def)

theorem get_rooms_first_hundred_witness:
  "get_rooms seeded_db = (Inr (take 100 (rooms seeded_db)), seeded_db) \<and>
   length (rooms seeded_db) \<le> 100 \<and> get_rooms seeded_db = (Inr (rooms seeded_db), seeded_db)"
proof -
  have h: "length (rooms seeded_db) \<le> 100" by (simp add: seeded_simps)
  from get_rooms_first_hundred[of seeded_db] h show ?thesis by simp
qed

text \<open>
  The claim as the specification states it (every stored room is returned, without a
  bound) fails on a store of 101 rooms: the last room is stored and is not returned.
\<close>

theorem get_rooms_all_counterexample:
  "fst (get_rooms crowded_db) = Inr (take 100 (rooms crowded_db)) \<and>
   numbered_room 100 \<in> set (rooms crowded_db) \<and>
   numbered_room 100 \<notin> set (take 100 (rooms crowded_db))"
proof -
  have "take 100 (rooms crowded_db) = map numbered_room [0..<100]"
    by (simp add: crowded_db_def take_map)
  moreover have "numbered_room 100 \<notin> set (map numbered_room [0..<100])"
    using numbered_room_inj by fastforce
  moreover have "numbered_room 100 \<in> set (rooms crowded_db)"
    by (simp add: crowded_db_def)
  ultimately show ?thesis
    by (simp add: get_rooms_def to_list_def)
qed

end
